theory Spec2Isabelle
  imports Complex_Main "HOL-Library.Finite_Map" "HOL-Library.Log_Nat"
begin

section \<open>The dashboard component of \<open>src/project/src/components/Dashboard.tsx\<close>\<close>

text \<open>
  The component keeps one state slot \<open>stats\<close>, refreshed by the asynchronous routine
  \<open>fetchStats\<close> whenever the profile changes, and renders cards and pie charts from it.
  The embedding follows the source line by line. JavaScript numbers that hold array
  lengths and their sums, products and differences are modelled as \<open>int\<close>; the only
  quotient of the file (the success rate) is computed in binary64, with the rounding of
  each operation and the results of a division by zero written out. The two awaited queries are calls to a store
  that either returns documents or throws; the routine is modelled as one run from start
  to end, without another run interleaved at its \<open>await\<close> points.
\<close>

subsection \<open>Data\<close>

text \<open>
  A pie-chart slice \<open>{ name, value, color }\<close> (lines 15 to 17); the field \<open>value\<close> is
  written \<open>val\<close> here.
\<close>

record slice =
  name :: string
  val :: int
  color :: string

text \<open>The state slot of \<open>useState\<close> (lines 10 to 18).\<close>

record stats =
  totalStudents :: int
  totalExperiments :: int
  completedExperiments :: int
  vivaAttempts :: int
  sectionWiseStudents :: "slice list"
  experimentProgress :: "slice list"
  vivaProgress :: "slice list"

definition initialStats :: stats where
  "initialStats =
     \<lparr>totalStudents = 0, totalExperiments = 0, completedExperiments = 0, vivaAttempts = 0,
      sectionWiseStudents = [], experimentProgress = [], vivaProgress = []\<rparr>"

text \<open>The palette of line 20.\<close>

definition colors :: "string list" where
  "colors = [''#3B82F6'', ''#10B981'', ''#F59E0B'', ''#EF4444'',
             ''#8B5CF6'', ''#06B6D4'', ''#84CC16'', ''#F97316'']"

text \<open>
  A fetched document \<open>{ id: doc.id, ...doc.data() }\<close> (lines 34 and 55), with the fields
  the component reads: \<open>section\<close> (written \<open>sectionField\<close> here), a string, and
  \<open>experimentsCompleted\<close>, a sequence of identifiers. A field that the document does not
  have is \<open>None\<close> (\<open>undefined\<close> in the source). The source reads the documents untyped;
  the types are those of the data model.
\<close>

record document =
  doc_id :: string
  sectionField :: "string option"
  experimentsCompleted :: "string list option"

text \<open>
  The profile handed out by \<open>useAuth\<close>. The student fields are read through
  \<open>userProfile as any\<close> (line 81); \<open>vivaScores\<close> is an object, a finite mapping from
  question identifiers to scores.
\<close>

record userProfile =
  uid :: string
  role :: string
  ownExperimentsCompleted :: "string list option"
  vivaScores :: "(string, int) fmap option"

subsection \<open>The JavaScript \<open>Map\<close> of line 37\<close>

text \<open>
  A \<open>Map\<close> iterates in insertion order, and \<open>set\<close> on a key that is present replaces
  the value where it stands: an association list with appending at the end.
\<close>

type_synonym ('k, 'v) js_map = "('k \<times> 'v) list"

fun map_set :: "('k, 'v) js_map \<Rightarrow> 'k \<Rightarrow> 'v \<Rightarrow> ('k, 'v) js_map" where
  "map_set [] k v = [(k, v)]"
| "map_set ((k', v') # m) k v = (if k' = k then (k', v) # m else (k', v') # map_set m k v)"

fun map_get :: "('k, 'v) js_map \<Rightarrow> 'k \<Rightarrow> 'v option" where
  "map_get [] k = None"
| "map_get ((k', v') # m) k = (if k' = k then Some v' else map_get m k)"

text \<open>\<open>x || 0\<close> on a number that may be \<open>undefined\<close>: zero is falsy as well.\<close>

definition or_zero :: "int option \<Rightarrow> int" where
  "or_zero x = (case x of None \<Rightarrow> 0 | Some c \<Rightarrow> if c = 0 then 0 else c)"

subsection \<open>The faculty path (lines 27 to 78)\<close>

text \<open>Line 39: \<open>student.section || 'Unknown'\<close>; the empty string is falsy.\<close>

definition sectionOf :: "document \<Rightarrow> string" where
  "sectionOf student =
     (case sectionField student of
        None \<Rightarrow> ''Unknown''
      | Some s \<Rightarrow> if s = [] then ''Unknown'' else s)"

text \<open>Lines 38 to 41: the body of the first \<open>forEach\<close>, and the loop.\<close>

definition countSection :: "(string, int) js_map \<Rightarrow> document \<Rightarrow> (string, int) js_map" where
  "countSection sectionMap student =
     map_set sectionMap (sectionOf student)
       (or_zero (map_get sectionMap (sectionOf student)) + 1)"

definition sectionMapOf :: "document list \<Rightarrow> (string, int) js_map" where
  "sectionMapOf students = foldl countSection [] students"

text \<open>Lines 43 to 47: one slice per entry of the map, coloured by its index.\<close>

definition sectionSlice :: "nat \<times> string \<times> int \<Rightarrow> slice" where
  "sectionSlice e =
     (case e of (index, sec, count) \<Rightarrow>
        \<lparr>name = sec, val = count, color = colors ! (index mod length colors)\<rparr>)"

definition sectionData :: "document list \<Rightarrow> slice list" where
  "sectionData students = map sectionSlice (enumerate 0 (sectionMapOf students))"

text \<open>Lines 59 to 62: \<open>totalCompletions += (student.experimentsCompleted || []).length\<close>.\<close>

definition completedOf :: "document \<Rightarrow> int" where
  "completedOf student =
     int (length (case experimentsCompleted student of None \<Rightarrow> [] | Some xs \<Rightarrow> xs))"

definition totalCompletions :: "document list \<Rightarrow> int" where
  "totalCompletions students = foldl (\<lambda>acc student. acc + completedOf student) 0 students"

text \<open>Lines 64 to 78: the object given to \<open>setStats\<close>.\<close>

definition facultyStats :: "document list \<Rightarrow> document list \<Rightarrow> stats" where
  "facultyStats students experiments =
     \<lparr>totalStudents = int (length students),
      totalExperiments = int (length experiments),
      completedExperiments = totalCompletions students,
      vivaAttempts = 0,
      sectionWiseStudents = sectionData students,
      experimentProgress =
        [\<lparr>name = ''Completed'', val = totalCompletions students, color = ''#10B981''\<rparr>,
         \<lparr>name = ''Pending'',
          val = max 0 (int (length students) * int (length experiments)
                        - totalCompletions students),
          color = ''#F59E0B''\<rparr>],
      vivaProgress =
        [\<lparr>name = ''Attempted'', val = 30, color = ''#3B82F6''\<rparr>,
         \<lparr>name = ''Not Attempted'', val = 70, color = ''#E5E7EB''\<rparr>]\<rparr>"

subsection \<open>The student path (lines 79 to 99)\<close>

text \<open>Line 82: \<open>studentData.experimentsCompleted?.length || 0\<close>.\<close>

definition ownCompleted :: "userProfile \<Rightarrow> int" where
  "ownCompleted p = or_zero (map_option (\<lambda>xs. int (length xs)) (ownExperimentsCompleted p))"

text \<open>Line 83: \<open>Object.keys(studentData.vivaScores || {}).length\<close>.\<close>

definition ownVivaScores :: "userProfile \<Rightarrow> int" where
  "ownVivaScores p =
     int (fcard (fmdom (case vivaScores p of None \<Rightarrow> fmempty | Some m \<Rightarrow> m)))"

definition studentStats :: "userProfile \<Rightarrow> stats" where
  "studentStats p =
     \<lparr>totalStudents = 0,
      totalExperiments = 5,
      completedExperiments = ownCompleted p,
      vivaAttempts = ownVivaScores p,
      sectionWiseStudents = [],
      experimentProgress =
        [\<lparr>name = ''Completed'', val = ownCompleted p, color = ''#10B981''\<rparr>,
         \<lparr>name = ''Remaining'', val = max 0 (5 - ownCompleted p), color = ''#F59E0B''\<rparr>],
      vivaProgress =
        [\<lparr>name = ''Attempted'', val = ownVivaScores p, color = ''#3B82F6''\<rparr>,
         \<lparr>name = ''Remaining'', val = max 0 (5 - ownVivaScores p), color = ''#E5E7EB''\<rparr>]\<rparr>"

subsection \<open>The fetch routine (lines 23 to 104)\<close>

text \<open>
  The document store is an external collaborator: it answers a filtered query with the
  matching documents, or the call throws. What the routine does to the outside is kept
  in a record: the state slot, the lines written by \<open>console.error\<close>, and the queries
  sent to the store, each in the order of the calls.
\<close>

datatype js_error = FirestoreError string

datatype query = Query string string string

type_synonym firestore = "query \<Rightarrow> js_error + document list"

record world =
  currentStats :: stats
  console :: "(string \<times> js_error) list"
  issued :: "query list"

definition initialWorld :: world where
  "initialWorld = \<lparr>currentStats = initialStats, console = [], issued = []\<rparr>"

definition getDocs :: "firestore \<Rightarrow> query \<Rightarrow> world \<Rightarrow> (js_error + document list) \<times> world" where
  "getDocs db q w = (db q, w\<lparr>issued := issued w @ [q]\<rparr>)"

definition setStats :: "stats \<Rightarrow> world \<Rightarrow> world" where
  "setStats s w = w\<lparr>currentStats := s\<rparr>"

definition console_error :: "string \<Rightarrow> js_error \<Rightarrow> world \<Rightarrow> world" where
  "console_error msg e w = w\<lparr>console := console w @ [(msg, e)]\<rparr>"

text \<open>
  The \<open>try\<close> block (lines 27 to 100). An exception leaves the block at the call that
  threw; what was done before stays done.
\<close>

definition try_block :: "firestore \<Rightarrow> userProfile \<Rightarrow> world \<Rightarrow> (js_error + unit) \<times> world" where
  "try_block db p w =
     (if role p = ''faculty'' then
        (case getDocs db (Query ''students'' ''facultyId'' (uid p)) w of
           (Inl e, w1) \<Rightarrow> (Inl e, w1)
         | (Inr students, w1) \<Rightarrow>
             (case getDocs db (Query ''experiments'' ''facultyId'' (uid p)) w1 of
                (Inl e, w2) \<Rightarrow> (Inl e, w2)
              | (Inr experiments, w2) \<Rightarrow>
                  (Inr (), setStats (facultyStats students experiments) w2)))
      else (Inr (), setStats (studentStats p) w))"

text \<open>
  The promise that the \<open>async\<close> function returns settles as resolved, or as rejected
  with the exception that left the function.
\<close>

datatype completion = Resolved | Rejected js_error

definition fetchStats :: "firestore \<Rightarrow> userProfile option \<Rightarrow> world \<Rightarrow> completion \<times> world" where
  "fetchStats db userProfile w =
     (case userProfile of
        None \<Rightarrow> (Resolved, w)
      | Some p \<Rightarrow>
          (case try_block db p w of
             (Inl e, w') \<Rightarrow> (Resolved, console_error ''Error fetching stats:'' e w')
           | (Inr u, w') \<Rightarrow> (Resolved, w')))"

subsection \<open>Rendering (lines 109 to 262)\<close>

text \<open>
  The card values are JavaScript numbers, that is IEEE 754 binary64 values: a NaN, the
  two infinities, and the finite values, each a rational number. The sign of a zero is
  not kept (both zeros are rendered as \<open>0\<close>). The counts of the state slot are integers
  below \<open>2^53\<close>, which binary64 holds exactly.

  An arithmetic operation returns the exact result rounded to the nearest binary64
  value, a tie going to the value with the even significand. \<open>exponent x\<close> is the
  integer \<open>e\<close> with \<open>2^e \<le> |x| < 2^(e+1)\<close>; the values between \<open>2^e\<close> and \<open>2^(e+1)\<close>
  are \<open>2^(e-52)\<close> apart (53 bits of significand), those below \<open>2^(-1022)\<close> are
  \<open>2^(-1074)\<close> apart, and a result that rounds to \<open>2^1024\<close> or more is an infinity.
\<close>

datatype js_number = NaN | PosInfinity | NegInfinity | Finite rat

definition exponent :: "rat \<Rightarrow> int" where
  "exponent x =
     (case quotient_of \<bar>x\<bar> of (n, d) \<Rightarrow>
        (let k = bitlen n - bitlen d in if 2 powi k \<le> \<bar>x\<bar> then k else k - 1))"

definition round_half_even :: "rat \<Rightarrow> int" where
  "round_half_even x =
     (let n = \<lfloor>x\<rfloor>; r = x - rat_of_int n
      in if r < 1 / 2 then n else if 1 / 2 < r then n + 1 else if even n then n else n + 1)"

definition binary64 :: "rat \<Rightarrow> js_number" where
  "binary64 x =
     (if x = 0 then Finite 0
      else
        (let e = max (exponent x) (- 1022);
             ulp = 2 powi (e - 52);
             r = rat_of_int (round_half_even (x / ulp)) * ulp
         in if 2 powi 1024 \<le> r then PosInfinity
            else if r \<le> - (2 powi 1024) then NegInfinity
            else Finite r))"

text \<open>
  The operator \<open>/\<close> on two counts. The divisor zero is the positive zero, so the
  quotient is \<open>NaN\<close> for 0/0 and an infinity with the sign of the dividend otherwise.
\<close>

definition js_divide :: "int \<Rightarrow> int \<Rightarrow> js_number" where
  "js_divide a b =
     (if b = 0 then (if a = 0 then NaN else if 0 < a then PosInfinity else NegInfinity)
      else binary64 (rat_of_int a / rat_of_int b))"

text \<open>The operator \<open>*\<close>: an infinity times zero is \<open>NaN\<close>.\<close>

definition js_infinity :: "bool \<Rightarrow> js_number" where
  "js_infinity positive = (if positive then PosInfinity else NegInfinity)"

fun js_times :: "js_number \<Rightarrow> js_number \<Rightarrow> js_number" where
  "js_times NaN y = NaN"
| "js_times x NaN = NaN"
| "js_times (Finite a) (Finite b) = binary64 (a * b)"
| "js_times (Finite a) PosInfinity = (if a = 0 then NaN else js_infinity (0 < a))"
| "js_times (Finite a) NegInfinity = (if a = 0 then NaN else js_infinity (a < 0))"
| "js_times PosInfinity (Finite b) = (if b = 0 then NaN else js_infinity (0 < b))"
| "js_times NegInfinity (Finite b) = (if b = 0 then NaN else js_infinity (b < 0))"
| "js_times PosInfinity PosInfinity = PosInfinity"
| "js_times PosInfinity NegInfinity = NegInfinity"
| "js_times NegInfinity PosInfinity = NegInfinity"
| "js_times NegInfinity NegInfinity = PosInfinity"

text \<open>
  \<open>Math.round\<close> returns the integer nearest to its argument, the larger one of the two
  when the argument lies halfway, and passes \<open>NaN\<close> and the infinities through.
\<close>

definition Math_round :: "js_number \<Rightarrow> js_number" where
  "Math_round x = (case x of Finite q \<Rightarrow> Finite (rat_of_int \<lfloor>q + 1 / 2\<rfloor>) | y \<Rightarrow> y)"

text \<open>Line 216: \<open>Math.round((stats.completedExperiments / stats.totalExperiments) * 100)\<close>.\<close>

definition successRate :: "stats \<Rightarrow> js_number" where
  "successRate s =
     Math_round (js_times (js_divide (completedExperiments s) (totalExperiments s)) (Finite 100))"

definition js_int :: "int \<Rightarrow> js_number" where
  "js_int n = Finite (rat_of_int n)"

record statCard =
  title :: string
  cardValue :: js_number

record pieChartCard =
  chartTitle :: string
  chartData :: "slice list"

record view =
  heading :: string
  statCards :: "statCard list"
  pieCharts :: "pieChartCard list"

definition Dashboard :: "userProfile option \<Rightarrow> stats \<Rightarrow> view option" where
  "Dashboard userProfile s =
     (case userProfile of
        None \<Rightarrow> None
      | Some p \<Rightarrow>
          Some
            \<lparr>heading = (if role p = ''faculty'' then ''Faculty Dashboard'' else ''Student Dashboard''),
             statCards =
               (if role p = ''faculty'' then
                  [\<lparr>title = ''Total Students'', cardValue = js_int (totalStudents s)\<rparr>,
                   \<lparr>title = ''Total Experiments'', cardValue = js_int (totalExperiments s)\<rparr>,
                   \<lparr>title = ''Completed Experiments'', cardValue = js_int (completedExperiments s)\<rparr>,
                   \<lparr>title = ''Viva Attempts'', cardValue = js_int (vivaAttempts s)\<rparr>]
                else
                  [\<lparr>title = ''Experiments Completed'', cardValue = js_int (completedExperiments s)\<rparr>,
                   \<lparr>title = ''Viva Questions Attempted'', cardValue = js_int (vivaAttempts s)\<rparr>,
                   \<lparr>title = ''Total Experiments'', cardValue = js_int (totalExperiments s)\<rparr>,
                   \<lparr>title = ''Success Rate'', cardValue = successRate s\<rparr>]),
             pieCharts =
               (if role p = ''faculty'' \<and> 0 < length (sectionWiseStudents s)
                then [\<lparr>chartTitle = ''Students by Section'', chartData = sectionWiseStudents s\<rparr>]
                else [])
               @ [\<lparr>chartTitle = ''Experiment Progress'', chartData = experimentProgress s\<rparr>,
                  \<lparr>chartTitle = ''Viva Progress'', chartData = vivaProgress s\<rparr>]\<rparr>)"

subsection \<open>Inputs used to run the definitions\<close>

text \<open>
  A faculty member with three students, two in \<open>sectionA\<close> and one in \<open>sectionB\<close>, who
  completed one, two and no experiments, and two experiments in the store.
\<close>

definition scenarioFaculty :: userProfile where
  "scenarioFaculty =
     \<lparr>uid = ''f1'', role = ''faculty'', ownExperimentsCompleted = None, vivaScores = None\<rparr>"

definition scenarioStudents :: "document list" where
  "scenarioStudents =
     [\<lparr>doc_id = ''s1'', sectionField = Some ''sectionA'', experimentsCompleted = Some [''e1'']\<rparr>,
      \<lparr>doc_id = ''s2'', sectionField = Some ''sectionA'',
       experimentsCompleted = Some [''e1'', ''e2'']\<rparr>,
      \<lparr>doc_id = ''s3'', sectionField = Some ''sectionB'', experimentsCompleted = Some []\<rparr>]"

definition scenarioExperiments :: "document list" where
  "scenarioExperiments =
     [\<lparr>doc_id = ''e1'', sectionField = None, experimentsCompleted = None\<rparr>,
      \<lparr>doc_id = ''e2'', sectionField = None, experimentsCompleted = None\<rparr>]"

definition scenarioStore :: firestore where
  "scenarioStore q =
     (if q = Query ''students'' ''facultyId'' ''f1'' then Inr scenarioStudents
      else if q = Query ''experiments'' ''facultyId'' ''f1'' then Inr scenarioExperiments
      else Inr [])"

text \<open>A student who completed five experiments and answered two viva questions.\<close>

definition scenarioStudent :: userProfile where
  "scenarioStudent =
     \<lparr>uid = ''u7'', role = ''student'',
      ownExperimentsCompleted = Some [''e1'', ''e2'', ''e3'', ''e4'', ''e5''],
      vivaScores = Some (fmupd ''q1'' 8 (fmupd ''q2'' 6 fmempty))\<rparr>"

text \<open>
  Student records for the section breakdown: ten students in nine sections, students
  without a usable section, and a student with more completions than experiments; and a
  student profile with six completions and six viva keys.
\<close>

definition mkStudent :: "string \<Rightarrow> string option \<Rightarrow> string list option \<Rightarrow> document" where
  "mkStudent i sec done = \<lparr>doc_id = i, sectionField = sec, experimentsCompleted = done\<rparr>"

definition paletteStudents :: "document list" where
  "paletteStudents =
     [mkStudent ''s0'' (Some ''A'') None, mkStudent ''s1'' (Some ''B'') None,
      mkStudent ''s2'' (Some ''A'') None, mkStudent ''s3'' (Some ''C'') None,
      mkStudent ''s4'' (Some ''D'') None, mkStudent ''s5'' (Some ''E'') None,
      mkStudent ''s6'' (Some ''F'') None, mkStudent ''s7'' (Some ''G'') None,
      mkStudent ''s8'' (Some ''H'') None, mkStudent ''s9'' (Some ''I'') None]"

definition unlabelledStudents :: "document list" where
  "unlabelledStudents =
     [mkStudent ''s0'' (Some ''sectionA'') None, mkStudent ''s1'' None None,
      mkStudent ''s2'' (Some '''') None, mkStudent ''s3'' (Some ''Unknown'') None]"

definition eagerStudents :: "document list" where
  "eagerStudents = [mkStudent ''s0'' None (Some [''e1'', ''e2'', ''e3''])]"

definition eagerStudent :: userProfile where
  "eagerStudent =
     \<lparr>uid = ''u9'', role = ''student'',
      ownExperimentsCompleted = Some [''e1'', ''e2'', ''e3'', ''e4'', ''e5'', ''e6''],
      vivaScores = Some (fmupd ''q1'' 1 (fmupd ''q2'' 2 (fmupd ''q3'' 3 (fmupd ''q4'' 4
                     (fmupd ''q5'' 5 (fmupd ''q6'' 6 fmempty))))))\<rparr>"

text \<open>
  Two stores that fail: one refuses every query, one answers the students query and
  fails on the experiments query.
\<close>

definition deniedStore :: firestore where
  "deniedStore q = Inl (FirestoreError ''permission-denied'')"

definition halfStore :: firestore where
  "halfStore q =
     (if q = Query ''students'' ''facultyId'' ''f1'' then Inr scenarioStudents
      else Inl (FirestoreError ''unavailable''))"

section \<open>Properties\<close>

subsection \<open>The map and the section counts\<close>

lemma or_zero_simps: "or_zero None = 0" "or_zero (Some c) = c"
  by (simp_all add: or_zero_def)

lemma map_get_map_of: "map_get m k = map_of m k"
  by (induction m) auto

lemma map_get_map_set:
  "map_get (map_set m k v) k' = (if k' = k then Some v else map_get m k')"
  by (induction m) auto

lemma keys_map_set:
  "map fst (map_set m k v) = (if k \<in> set (map fst m) then map fst m else map fst m @ [k])"
  by (induction m) force+

lemma sum_map_set:
  "sum_list (map snd (map_set m k (or_zero (map_get m k) + 1))) = sum_list (map snd m) + 1"
  by (induction m) (auto simp: or_zero_simps)

lemma sum_sectionMap:
  "sum_list (map snd (foldl countSection m students)) = sum_list (map snd m) + int (length students)"
  by (induction students arbitrary: m) (simp_all add: countSection_def sum_map_set)

lemma val_sectionSlice: "map val (map sectionSlice (enumerate n m)) = map snd m"
  by (induction m arbitrary: n) (simp_all add: sectionSlice_def split: prod.splits)

lemma name_sectionSlice: "map name (map sectionSlice (enumerate n m)) = map fst m"
  by (induction m arbitrary: n) (simp_all add: sectionSlice_def split: prod.splits)

lemma sum_sectionData: "sum_list (map val (sectionData students)) = int (length students)"
  using sum_sectionMap [of "[]" students]
  by (simp add: sectionData_def sectionMapOf_def val_sectionSlice del: map_map)

lemma remdups_skip: "x \<in> set bs \<Longrightarrow> remdups (as @ x # bs) = remdups (as @ bs)"
  by (induction as) auto

lemma keys_foldl:
  "distinct (map fst m) \<Longrightarrow>
   map fst (foldl countSection m students) = rev (remdups (rev (map fst m @ map sectionOf students)))"
proof (induction students arbitrary: m)
  case Nil
  then show ?case by (simp add: distinct_remdups_id)
next
  case (Cons s students)
  show ?case
  proof (cases "sectionOf s \<in> set (map fst m)")
    case True
    then have "map fst (countSection m s) = map fst m"
      by (simp add: countSection_def keys_map_set)
    with Cons True show ?thesis
      by (simp add: remdups_skip)
  next
    case False
    then have k: "map fst (countSection m s) = map fst m @ [sectionOf s]"
      by (simp add: countSection_def keys_map_set)
    with Cons.prems False have "distinct (map fst (countSection m s))" by simp
    from Cons.IH [OF this] k show ?thesis by simp
  qed
qed

lemma count_foldl:
  "or_zero (map_get (foldl countSection m students) L) =
   or_zero (map_get m L) + int (length (filter (\<lambda>s. sectionOf s = L) students))"
  by (induction students arbitrary: m)
     (auto simp: countSection_def map_get_map_set or_zero_simps)

lemma alist_by_keys:
  "distinct (map fst m) \<Longrightarrow> m = map (\<lambda>k. (k, or_zero (map_get m k))) (map fst m)"
proof (induction m)
  case Nil
  then show ?case by simp
next
  case (Cons a m)
  then have "m = map (\<lambda>k. (k, or_zero (map_get m k))) (map fst m)" by simp
  moreover have "map (\<lambda>k. (k, or_zero (map_get m k))) (map fst m)
     = map (\<lambda>k. (k, or_zero (map_get (a # m) k))) (map fst m)"
    using Cons.prems by (cases a) (auto simp: or_zero_simps)
  ultimately show ?case by (cases a) (auto simp: or_zero_simps)
qed

lemma sectionMapOf_eq:
  "sectionMapOf students =
   map (\<lambda>L. (L, int (length (filter (\<lambda>s. sectionOf s = L) students))))
     (rev (remdups (rev (map sectionOf students))))"
proof -
  let ?m = "sectionMapOf students"
  have keys: "map fst ?m = rev (remdups (rev (map sectionOf students)))"
    using keys_foldl [of "[]" students] by (simp add: sectionMapOf_def)
  then have "distinct (map fst ?m)" by simp
  from alist_by_keys [OF this] have "?m = map (\<lambda>k. (k, or_zero (map_get ?m k))) (map fst ?m)" .
  also have "(\<lambda>k. (k, or_zero (map_get ?m k))) = (\<lambda>L. (L, int (length (filter (\<lambda>s. sectionOf s = L) students))))"
    using count_foldl [of "[]" students] by (simp add: sectionMapOf_def or_zero_simps)
  finally show ?thesis using keys by simp
qed

subsection \<open>What the fetch routine stores\<close>

lemma fetchStats_faculty:
  assumes "role p = ''faculty''"
    and "db (Query ''students'' ''facultyId'' (uid p)) = Inr students"
    and "db (Query ''experiments'' ''facultyId'' (uid p)) = Inr experiments"
  shows "fetchStats db (Some p) w =
     (Resolved,
      \<lparr>currentStats = facultyStats students experiments, console = console w,
       issued = issued w @ [Query ''students'' ''facultyId'' (uid p),
                            Query ''experiments'' ''facultyId'' (uid p)]\<rparr>)"
  using assms by (simp add: fetchStats_def try_block_def getDocs_def setStats_def)

lemma fetchStats_student:
  assumes "role p \<noteq> ''faculty''"
  shows "fetchStats db (Some p) w =
     (Resolved, \<lparr>currentStats = studentStats p, console = console w, issued = issued w\<rparr>)"
  using assms by (simp add: fetchStats_def try_block_def setStats_def)

lemma scenario_store:
  "scenarioStore (Query ''students'' ''facultyId'' (uid scenarioFaculty)) = Inr scenarioStudents"
  "scenarioStore (Query ''experiments'' ''facultyId'' (uid scenarioFaculty)) = Inr scenarioExperiments"
  "role scenarioFaculty = ''faculty''"
  by (simp_all add: scenarioStore_def scenarioFaculty_def)

subsection \<open>Claims\<close>

text \<open>
  C3. For every list of student records that the faculty path processes, the counts of
  the section breakdown add up to \<open>totalStudents\<close>, which is the number of student
  records: every student is counted in exactly one section group.
\<close>

theorem section_counts_sum_to_totalStudents:
  "sum_list (map val (sectionWiseStudents (facultyStats students experiments)))
     = totalStudents (facultyStats students experiments)
   \<and> totalStudents (facultyStats students experiments) = int (length students)"
  by (simp add: facultyStats_def sum_sectionData)

text \<open>
  C7. Whenever the faculty path runs to the end, whatever the two queries returned,
  \<open>vivaAttempts\<close> is 0 and the viva-progress breakdown is the two fixed entries
  \<open>Attempted\<close> = 30 and \<open>Not Attempted\<close> = 70.
\<close>

theorem faculty_viva_placeholder:
  assumes "role p = ''faculty''"
    and "db (Query ''students'' ''facultyId'' (uid p)) = Inr students"
    and "db (Query ''experiments'' ''facultyId'' (uid p)) = Inr experiments"
  shows "vivaAttempts (currentStats (snd (fetchStats db (Some p) w))) = 0
   \<and> vivaProgress (currentStats (snd (fetchStats db (Some p) w))) =
       [\<lparr>name = ''Attempted'', val = 30, color = ''#3B82F6''\<rparr>,
        \<lparr>name = ''Not Attempted'', val = 70, color = ''#E5E7EB''\<rparr>]"
  by (simp add: fetchStats_faculty [OF assms] facultyStats_def)

theorem faculty_viva_placeholder_witness:
  "role scenarioFaculty = ''faculty''
   \<and> scenarioStore (Query ''students'' ''facultyId'' (uid scenarioFaculty)) = Inr scenarioStudents
   \<and> scenarioStore (Query ''experiments'' ''facultyId'' (uid scenarioFaculty))
       = Inr scenarioExperiments
   \<and> vivaAttempts (currentStats (snd (fetchStats scenarioStore (Some scenarioFaculty) initialWorld))) = 0
   \<and> vivaProgress (currentStats (snd (fetchStats scenarioStore (Some scenarioFaculty) initialWorld))) =
       [\<lparr>name = ''Attempted'', val = 30, color = ''#3B82F6''\<rparr>,
        \<lparr>name = ''Not Attempted'', val = 70, color = ''#E5E7EB''\<rparr>]"
  using faculty_viva_placeholder [OF scenario_store(3) scenario_store(1) scenario_store(2), of initialWorld]
  by (simp add: scenario_store)

lemma totalCompletions_sum_aux:
  "foldl (\<lambda>acc student. acc + completedOf student) a students
     = a + sum_list (map completedOf students)"
  by (induction students arbitrary: a) simp_all

lemma totalCompletions_sum:
  "totalCompletions students =
     (\<Sum>student\<leftarrow>students.
        int (length (case experimentsCompleted student of None \<Rightarrow> [] | Some xs \<Rightarrow> xs)))"
proof -
  have "completedOf =
      (\<lambda>student. int (length (case experimentsCompleted student of None \<Rightarrow> [] | Some xs \<Rightarrow> xs)))"
    by (rule ext) (simp add: completedOf_def)
  then show ?thesis
    by (simp add: totalCompletions_def totalCompletions_sum_aux)
qed

text \<open>
  C1. On the faculty path, with the student and experiment records that the two queries
  returned, the stored view model has \<open>totalStudents\<close> = the number of student records,
  \<open>totalExperiments\<close> = the number of experiment records, \<open>completedExperiments\<close> = the
  sum of the lengths of the students' \<open>experimentsCompleted\<close> sequences (an absent one
  counting as empty), and an experiment-progress breakdown of exactly two entries,
  \<open>Completed\<close> = \<open>completedExperiments\<close> and \<open>Pending\<close> =
  \<open>max 0 (totalStudents * totalExperiments - completedExperiments)\<close>. The witness runs the
  scenario of three students with completed lists of lengths 1, 2, 0 and two experiments.
\<close>

theorem faculty_aggregation:
  assumes "role p = ''faculty''"
    and "db (Query ''students'' ''facultyId'' (uid p)) = Inr students"
    and "db (Query ''experiments'' ''facultyId'' (uid p)) = Inr experiments"
  shows "let s = currentStats (snd (fetchStats db (Some p) w)) in
       totalStudents s = int (length students)
     \<and> totalExperiments s = int (length experiments)
     \<and> completedExperiments s =
         (\<Sum>student\<leftarrow>students.
            int (length (case experimentsCompleted student of None \<Rightarrow> [] | Some xs \<Rightarrow> xs)))
     \<and> map (\<lambda>e. (name e, val e)) (experimentProgress s) =
         [(''Completed'', completedExperiments s),
          (''Pending'', max 0 (totalStudents s * totalExperiments s - completedExperiments s))]"
  by (simp add: fetchStats_faculty [OF assms] facultyStats_def totalCompletions_sum)

theorem faculty_aggregation_witness:
  "role scenarioFaculty = ''faculty''
   \<and> scenarioStore (Query ''students'' ''facultyId'' (uid scenarioFaculty)) = Inr scenarioStudents
   \<and> scenarioStore (Query ''experiments'' ''facultyId'' (uid scenarioFaculty))
       = Inr scenarioExperiments
   \<and> map (\<lambda>d. length (the (experimentsCompleted d))) scenarioStudents = [1, 2, 0]
   \<and> length scenarioExperiments = 2
   \<and> (let s = currentStats (snd (fetchStats scenarioStore (Some scenarioFaculty) initialWorld)) in
        totalStudents s = 3 \<and> totalExperiments s = 2 \<and> completedExperiments s = 3
      \<and> map (\<lambda>e. (name e, val e)) (sectionWiseStudents s) = [(''sectionA'', 2), (''sectionB'', 1)]
      \<and> map (\<lambda>e. (name e, val e)) (experimentProgress s) = [(''Completed'', 3), (''Pending'', 3)])"
  using faculty_aggregation [OF scenario_store(3) scenario_store(1) scenario_store(2), of initialWorld]
  by (simp add: scenario_store fetchStats_faculty [OF scenario_store(3) scenario_store(1) scenario_store(2)]
      facultyStats_def scenarioStudents_def scenarioExperiments_def sectionData_def sectionMapOf_def
      countSection_def sectionOf_def or_zero_def sectionSlice_def enumerate_eq_zip upt_rec
      Let_def)

lemma ownCompleted_eq:
  "ownCompleted p = (case ownExperimentsCompleted p of None \<Rightarrow> 0 | Some xs \<Rightarrow> int (length xs))"
  by (simp add: ownCompleted_def or_zero_def split: option.splits)

lemma ownVivaScores_eq:
  "ownVivaScores p = (case vivaScores p of None \<Rightarrow> 0 | Some m \<Rightarrow> int (fcard (fmdom m)))"
  by (simp add: ownVivaScores_def split: option.splits)

text \<open>
  C2. On the student path the stored view model has \<open>completedExperiments\<close> = the length
  of the profile's \<open>experimentsCompleted\<close> (0 if absent), \<open>vivaAttempts\<close> = the number
  of keys of its \<open>vivaScores\<close> (0 if absent), \<open>totalExperiments\<close> = 5, experiment
  progress \<open>Completed\<close>, \<open>Remaining\<close> = \<open>max 0 (5 - completedExperiments)\<close> and viva
  progress \<open>Attempted\<close>, \<open>Remaining\<close> = \<open>max 0 (5 - vivaAttempts)\<close>. The witness is a
  profile with five completed experiments and two viva keys.
\<close>

theorem student_aggregation:
  assumes "role p \<noteq> ''faculty''"
  shows "let s = currentStats (snd (fetchStats db (Some p) w)) in
       completedExperiments s =
         (case ownExperimentsCompleted p of None \<Rightarrow> 0 | Some xs \<Rightarrow> int (length xs))
     \<and> vivaAttempts s = (case vivaScores p of None \<Rightarrow> 0 | Some m \<Rightarrow> int (fcard (fmdom m)))
     \<and> totalExperiments s = 5
     \<and> map (\<lambda>e. (name e, val e)) (experimentProgress s) =
         [(''Completed'', completedExperiments s),
          (''Remaining'', max 0 (5 - completedExperiments s))]
     \<and> map (\<lambda>e. (name e, val e)) (vivaProgress s) =
         [(''Attempted'', vivaAttempts s), (''Remaining'', max 0 (5 - vivaAttempts s))]"
  by (simp add: fetchStats_student [OF assms] studentStats_def ownCompleted_eq ownVivaScores_eq)

theorem student_aggregation_witness:
  "role scenarioStudent \<noteq> ''faculty''
   \<and> map_option length (ownExperimentsCompleted scenarioStudent) = Some 5
   \<and> map_option (\<lambda>m. fcard (fmdom m)) (vivaScores scenarioStudent) = Some 2
   \<and> (let s = currentStats (snd (fetchStats scenarioStore (Some scenarioStudent) initialWorld)) in
        completedExperiments s = 5 \<and> vivaAttempts s = 2 \<and> totalExperiments s = 5
      \<and> map (\<lambda>e. (name e, val e)) (experimentProgress s) = [(''Completed'', 5), (''Remaining'', 0)]
      \<and> map (\<lambda>e. (name e, val e)) (vivaProgress s) = [(''Attempted'', 2), (''Remaining'', 3)])"
proof -
  have r: "role scenarioStudent \<noteq> ''faculty''" by (simp add: scenarioStudent_def)
  have c: "fcard (fmdom (fmupd ''q1'' (8::int) (fmupd ''q2'' 6 fmempty))) = 2"
    by (simp add: fcard_finsert_if)
  show ?thesis
    using student_aggregation [OF r, of scenarioStore initialWorld] r c
    by (simp add: scenarioStudent_def Let_def)
qed

lemma sectionData_names:
  "map name (sectionData students) = rev (remdups (rev (map sectionOf students)))"
proof -
  have "map name (sectionData students) = map fst (sectionMapOf students)"
    by (simp add: sectionData_def name_sectionSlice del: map_map)
  then show ?thesis by (simp add: sectionMapOf_eq comp_def)
qed

lemma sectionData_vals:
  "map val (sectionData students) =
     map (\<lambda>L. int (length (filter (\<lambda>s. sectionOf s = L) students))) (map name (sectionData students))"
proof -
  have "map val (sectionData students) = map snd (sectionMapOf students)"
    by (simp add: sectionData_def val_sectionSlice del: map_map)
  then show ?thesis unfolding sectionData_names by (simp add: sectionMapOf_eq comp_def)
qed

lemma sectionData_val:
  assumes "e \<in> set (sectionData students)"
  shows "val e = int (length (filter (\<lambda>s. sectionOf s = name e) students))"
proof -
  from assms obtain k where k: "k < length (sectionData students)" "sectionData students ! k = e"
    by (auto simp: in_set_conv_nth)
  have "val e = map val (sectionData students) ! k" using k by simp
  also have "\<dots> = int (length (filter (\<lambda>s. sectionOf s = name e) students))"
    using k by (subst sectionData_vals) simp
  finally show ?thesis .
qed

lemma sectionData_color:
  assumes "k < length (sectionData students)"
  shows "color (sectionData students ! k) = colors ! (k mod 8)"
proof -
  have "length colors = 8" by (simp add: colors_def)
  with assms show ?thesis
    by (simp add: sectionData_def nth_enumerate_eq sectionSlice_def split: prod.splits)
qed

text \<open>
  C6. The section breakdown has one entry per distinct section label, in the order in
  which the labels are first met in the student list (\<open>rev (remdups (rev xs))\<close> keeps the
  first occurrence of every element of \<open>xs\<close>, in order), each with the number of students
  of that label, and the entry at position \<open>k\<close> (from 0) has the colour
  \<open>colors ! (k mod 8)\<close> of the palette of eight: past eight sections the colours start
  again. The witness has nine sections; the ninth has the colour of the first.
\<close>

theorem section_breakdown_order_and_colors:
  "let sd = sectionWiseStudents (facultyStats students experiments) in
       map name sd = rev (remdups (rev (map sectionOf students)))
     \<and> map val sd = map (\<lambda>L. int (length (filter (\<lambda>s. sectionOf s = L) students))) (map name sd)
     \<and> (\<forall>k<length sd. color (sd ! k) = colors ! (k mod 8))
     \<and> length colors = 8"
proof -
  have "sectionWiseStudents (facultyStats students experiments) = sectionData students"
    by (simp add: facultyStats_def)
  moreover have "length colors = 8" by (simp add: colors_def)
  moreover note sectionData_names [of students] sectionData_vals [of students]
  moreover have "\<forall>k<length (sectionData students).
      color (sectionData students ! k) = colors ! (k mod 8)"
    by (simp add: sectionData_color)
  ultimately show ?thesis
    unfolding Let_def by (intro conjI) simp_all
qed

lemma paletteStudents_data:
  "sectionData paletteStudents =
     [\<lparr>name = ''A'', val = 2, color = ''#3B82F6''\<rparr>, \<lparr>name = ''B'', val = 1, color = ''#10B981''\<rparr>,
      \<lparr>name = ''C'', val = 1, color = ''#F59E0B''\<rparr>, \<lparr>name = ''D'', val = 1, color = ''#EF4444''\<rparr>,
      \<lparr>name = ''E'', val = 1, color = ''#8B5CF6''\<rparr>, \<lparr>name = ''F'', val = 1, color = ''#06B6D4''\<rparr>,
      \<lparr>name = ''G'', val = 1, color = ''#84CC16''\<rparr>, \<lparr>name = ''H'', val = 1, color = ''#F97316''\<rparr>,
      \<lparr>name = ''I'', val = 1, color = ''#3B82F6''\<rparr>]"
  by (simp add: paletteStudents_def mkStudent_def sectionData_def sectionMapOf_def
      countSection_def sectionOf_def or_zero_def sectionSlice_def enumerate_eq_zip upt_rec colors_def)

theorem section_breakdown_order_and_colors_witness:
  "map sectionOf paletteStudents = [''A'', ''B'', ''A'', ''C'', ''D'', ''E'', ''F'', ''G'', ''H'', ''I'']
   \<and> (let sd = sectionWiseStudents (facultyStats paletteStudents []) in
        map name sd = [''A'', ''B'', ''C'', ''D'', ''E'', ''F'', ''G'', ''H'', ''I'']
      \<and> map val sd = [2, 1, 1, 1, 1, 1, 1, 1, 1]
      \<and> 8 < length sd
      \<and> color (sd ! 8) = colors ! 0
      \<and> color (sd ! 8) = color (sd ! 0))"
proof -
  have sd: "sectionWiseStudents (facultyStats paletteStudents []) = sectionData paletteStudents"
    by (simp add: facultyStats_def)
  have l: "map sectionOf paletteStudents = [''A'', ''B'', ''A'', ''C'', ''D'', ''E'', ''F'', ''G'', ''H'', ''I'']"
    by (simp add: paletteStudents_def mkStudent_def sectionOf_def)
  show ?thesis
    using section_breakdown_order_and_colors [of paletteStudents "[]"] l
    by (simp add: sd paletteStudents_data Let_def colors_def)
qed

lemma sectionOf_Unknown:
  "sectionOf t = ''Unknown'' \<longleftrightarrow>
     sectionField t = None \<or> sectionField t = Some '''' \<or> sectionField t = Some ''Unknown''"
  by (auto simp: sectionOf_def split: option.splits)

lemma sectionOf_nonempty: "sectionOf t \<noteq> ''''"
  by (simp add: sectionOf_def split: option.splits)

text \<open>
  C5. Every student whose \<open>section\<close> field is absent or the empty string is grouped
  under the label \<open>Unknown\<close>: the breakdown has an entry of that name, it is the only one
  of that name, it counts all students without a section (together with those whose
  section is literally \<open>Unknown\<close>), and no entry has the empty label.
\<close>

theorem missing_section_grouped_as_Unknown:
  assumes "student \<in> set students"
    and "sectionField student = None \<or> sectionField student = Some ''''"
  shows "let sd = sectionWiseStudents (facultyStats students experiments) in
       (\<exists>e \<in> set sd. name e = ''Unknown''
          \<and> val e = int (length (filter (\<lambda>t. sectionField t = None \<or> sectionField t = Some ''''
                                          \<or> sectionField t = Some ''Unknown'') students)))
     \<and> distinct (map name sd)
     \<and> '''' \<notin> set (map name sd)"
proof -
  let ?sd = "sectionData students"
  have sd: "sectionWiseStudents (facultyStats students experiments) = ?sd"
    by (simp add: facultyStats_def)
  from assms have "sectionOf student = ''Unknown''"
    by (auto simp: sectionOf_Unknown)
  with assms(1) have "''Unknown'' \<in> set (map sectionOf students)"
    by force
  then have "''Unknown'' \<in> set (map name ?sd)"
    by (simp add: sectionData_names)
  then obtain e where e: "e \<in> set ?sd" "name e = ''Unknown''"
    by auto
  from sectionData_val [OF e(1)] e(2)
  have "val e = int (length (filter (\<lambda>t. sectionField t = None \<or> sectionField t = Some ''''
                                          \<or> sectionField t = Some ''Unknown'') students))"
    by (simp add: sectionOf_Unknown)
  with e have first: "\<exists>e \<in> set ?sd. name e = ''Unknown''
          \<and> val e = int (length (filter (\<lambda>t. sectionField t = None \<or> sectionField t = Some ''''
                                          \<or> sectionField t = Some ''Unknown'') students))"
    by blast
  have second: "distinct (map name ?sd)"
    by (simp add: sectionData_names)
  have third: "'''' \<notin> set (map name ?sd)"
  proof
    assume "[] \<in> set (map name ?sd)"
    then have "[] \<in> sectionOf ` set students"
      by (simp add: sectionData_names)
    then obtain t where "[] = sectionOf t"
      by (rule imageE)
    with sectionOf_nonempty [of t] show False by simp
  qed
  from first second third show ?thesis
    unfolding Let_def sd by (intro conjI)
qed

lemma unlabelledStudents_data:
  "sectionData unlabelledStudents =
     [\<lparr>name = ''sectionA'', val = 1, color = ''#3B82F6''\<rparr>,
      \<lparr>name = ''Unknown'', val = 3, color = ''#10B981''\<rparr>]"
  by (simp add: unlabelledStudents_def mkStudent_def sectionData_def sectionMapOf_def
      countSection_def sectionOf_def or_zero_def sectionSlice_def enumerate_eq_zip upt_rec colors_def)

theorem missing_section_grouped_as_Unknown_witness:
  "mkStudent ''s1'' None None \<in> set unlabelledStudents
   \<and> sectionField (mkStudent ''s1'' None None) = None
   \<and> mkStudent ''s2'' (Some '''') None \<in> set unlabelledStudents
   \<and> sectionField (mkStudent ''s2'' (Some '''') None) = Some ''''
   \<and> map (\<lambda>e. (name e, val e)) (sectionWiseStudents (facultyStats unlabelledStudents []))
       = [(''sectionA'', 1), (''Unknown'', 3)]"
proof -
  have m: "mkStudent ''s1'' None None \<in> set unlabelledStudents"
    "mkStudent ''s2'' (Some '''') None \<in> set unlabelledStudents"
    by (simp_all add: unlabelledStudents_def)
  have f: "sectionField (mkStudent ''s1'' None None) = None"
    "sectionField (mkStudent ''s2'' (Some '''') None) = Some ''''"
    by (simp_all add: mkStudent_def)
  have sd: "sectionWiseStudents (facultyStats unlabelledStudents []) = sectionData unlabelledStudents"
    by (simp add: facultyStats_def)
  from f have h: "sectionField (mkStudent ''s1'' None None) = None
      \<or> sectionField (mkStudent ''s1'' None None) = Some ''''"
    by simp
  show ?thesis
    using missing_section_grouped_as_Unknown [OF m(1) h, of "[]"] m f
    by (simp add: sd unlabelledStudents_data)
qed

text \<open>
  C4. Every count in every breakdown list of a view model that the routine stores, on
  the faculty path and on the student path, is non-negative; the \<open>Pending\<close> entry is 0
  when the completions exceed students times experiments, and the two \<open>Remaining\<close>
  entries of the student path are 0 when the completions or the viva keys exceed 5.
\<close>

theorem breakdown_counts_nonnegative:
  "(\<forall>e \<in> set (sectionWiseStudents (facultyStats students experiments)
               @ experimentProgress (facultyStats students experiments)
               @ vivaProgress (facultyStats students experiments)). 0 \<le> val e)
   \<and> (\<forall>e \<in> set (sectionWiseStudents (studentStats p) @ experimentProgress (studentStats p)
               @ vivaProgress (studentStats p)). 0 \<le> val e)
   \<and> (int (length students) * int (length experiments)
          < completedExperiments (facultyStats students experiments)
        \<longrightarrow> map (\<lambda>e. (name e, val e)) (experimentProgress (facultyStats students experiments))
              = [(''Completed'', completedExperiments (facultyStats students experiments)),
                 (''Pending'', 0)])
   \<and> (5 < completedExperiments (studentStats p)
        \<longrightarrow> map (\<lambda>e. (name e, val e)) (experimentProgress (studentStats p))
              = [(''Completed'', completedExperiments (studentStats p)), (''Remaining'', 0)])
   \<and> (5 < vivaAttempts (studentStats p)
        \<longrightarrow> map (\<lambda>e. (name e, val e)) (vivaProgress (studentStats p))
              = [(''Attempted'', vivaAttempts (studentStats p)), (''Remaining'', 0)])"
proof -
  have c: "0 \<le> totalCompletions students"
    unfolding totalCompletions_sum by (rule sum_list_nonneg) auto
  have o: "0 \<le> ownCompleted p"
    by (simp add: ownCompleted_eq split: option.splits)
  have v: "0 \<le> ownVivaScores p"
    by (simp add: ownVivaScores_def)
  have s: "\<forall>e \<in> set (sectionData students). 0 \<le> val e"
    by (simp add: sectionData_val)
  have 1: "\<forall>e \<in> set (sectionWiseStudents (facultyStats students experiments)
               @ experimentProgress (facultyStats students experiments)
               @ vivaProgress (facultyStats students experiments)). 0 \<le> val e"
    using c s by (auto simp: facultyStats_def)
  have 2: "\<forall>e \<in> set (sectionWiseStudents (studentStats p) @ experimentProgress (studentStats p)
               @ vivaProgress (studentStats p)). 0 \<le> val e"
    using o v by (auto simp: studentStats_def)
  have 3: "int (length students) * int (length experiments)
          < completedExperiments (facultyStats students experiments)
        \<longrightarrow> map (\<lambda>e. (name e, val e)) (experimentProgress (facultyStats students experiments))
              = [(''Completed'', completedExperiments (facultyStats students experiments)),
                 (''Pending'', 0)]"
    by (simp add: facultyStats_def)
  have 4: "5 < completedExperiments (studentStats p)
        \<longrightarrow> map (\<lambda>e. (name e, val e)) (experimentProgress (studentStats p))
              = [(''Completed'', completedExperiments (studentStats p)), (''Remaining'', 0)]"
    by (simp add: studentStats_def)
  have 5: "5 < vivaAttempts (studentStats p)
        \<longrightarrow> map (\<lambda>e. (name e, val e)) (vivaProgress (studentStats p))
              = [(''Attempted'', vivaAttempts (studentStats p)), (''Remaining'', 0)]"
    by (simp add: studentStats_def)
  from 1 2 3 4 5 show ?thesis by (intro conjI)
qed

lemma eagerStudent_counts: "ownCompleted eagerStudent = 6" "ownVivaScores eagerStudent = 6"
  by (simp_all add: ownCompleted_eq ownVivaScores_eq eagerStudent_def fcard_finsert_if)

lemma eagerStudents_stats:
  "facultyStats eagerStudents [] =
     \<lparr>totalStudents = 1, totalExperiments = 0, completedExperiments = 3, vivaAttempts = 0,
      sectionWiseStudents = [\<lparr>name = ''Unknown'', val = 1, color = ''#3B82F6''\<rparr>],
      experimentProgress =
        [\<lparr>name = ''Completed'', val = 3, color = ''#10B981''\<rparr>,
         \<lparr>name = ''Pending'', val = 0, color = ''#F59E0B''\<rparr>],
      vivaProgress =
        [\<lparr>name = ''Attempted'', val = 30, color = ''#3B82F6''\<rparr>,
         \<lparr>name = ''Not Attempted'', val = 70, color = ''#E5E7EB''\<rparr>]\<rparr>"
  by (simp add: facultyStats_def eagerStudents_def mkStudent_def totalCompletions_def completedOf_def
      sectionData_def sectionMapOf_def countSection_def sectionOf_def or_zero_def sectionSlice_def
      enumerate_eq_zip upt_rec colors_def)

theorem breakdown_counts_nonnegative_witness:
  "int (length eagerStudents) * int (length ([] :: document list))
      < completedExperiments (facultyStats eagerStudents [])
   \<and> 5 < completedExperiments (studentStats eagerStudent)
   \<and> 5 < vivaAttempts (studentStats eagerStudent)
   \<and> map val (sectionWiseStudents (facultyStats eagerStudents [])) = [1]
   \<and> map val (experimentProgress (facultyStats eagerStudents [])) = [3, 0]
   \<and> map val (vivaProgress (facultyStats eagerStudents [])) = [30, 70]
   \<and> map val (sectionWiseStudents (studentStats eagerStudent)) = []
   \<and> map val (experimentProgress (studentStats eagerStudent)) = [6, 0]
   \<and> map val (vivaProgress (studentStats eagerStudent)) = [6, 0]"
proof -
  have l: "length eagerStudents = 1" by (simp add: eagerStudents_def)
  show ?thesis
    using breakdown_counts_nonnegative [of eagerStudents "[]" eagerStudent]
    by (simp add: eagerStudents_stats studentStats_def eagerStudent_counts l)
qed

lemma second_query_fails:
  "fetchStats halfStore (Some scenarioFaculty) initialWorld =
       (Resolved,
        \<lparr>currentStats = initialStats,
         console = [(''Error fetching stats:'', FirestoreError ''unavailable'')],
         issued = [Query ''students'' ''facultyId'' ''f1'', Query ''experiments'' ''facultyId'' ''f1'']\<rparr>)"
  by (simp add: fetchStats_def try_block_def getDocs_def console_error_def halfStore_def
        scenarioFaculty_def initialWorld_def)

text \<open>
  C8. If a query of the fetch routine throws (the first one, or the second after the
  first has returned), the routine still resolves: no exception reaches the caller, the
  error is written to the console with the message of line 102, and the state slot
  keeps the value it had. The witness starts from the initial world, where that value is
  the all-zero initial state.
\<close>

theorem fetch_failure_keeps_stats:
  assumes "role p = ''faculty''"
    and "db (Query ''students'' ''facultyId'' (uid p)) = Inl e
         \<or> (\<exists>students. db (Query ''students'' ''facultyId'' (uid p)) = Inr students)
            \<and> db (Query ''experiments'' ''facultyId'' (uid p)) = Inl e"
  shows "fst (fetchStats db (Some p) w) = Resolved
     \<and> currentStats (snd (fetchStats db (Some p) w)) = currentStats w
     \<and> console (snd (fetchStats db (Some p) w)) = console w @ [(''Error fetching stats:'', e)]"
  using assms
  by (auto simp: fetchStats_def try_block_def getDocs_def console_error_def setStats_def)

theorem fetch_failure_keeps_stats_witness:
  "role scenarioFaculty = ''faculty''
   \<and> deniedStore (Query ''students'' ''facultyId'' (uid scenarioFaculty))
       = Inl (FirestoreError ''permission-denied'')
   \<and> fetchStats deniedStore (Some scenarioFaculty) initialWorld =
       (Resolved,
        \<lparr>currentStats = initialStats,
         console = [(''Error fetching stats:'', FirestoreError ''permission-denied'')],
         issued = [Query ''students'' ''facultyId'' ''f1'']\<rparr>)
   \<and> fetchStats halfStore (Some scenarioFaculty) initialWorld =
       (Resolved,
        \<lparr>currentStats = initialStats,
         console = [(''Error fetching stats:'', FirestoreError ''unavailable'')],
         issued = [Query ''students'' ''facultyId'' ''f1'',
                   Query ''experiments'' ''facultyId'' ''f1'']\<rparr>)"
proof -
  have d: "deniedStore (Query ''students'' ''facultyId'' (uid scenarioFaculty))
       = Inl (FirestoreError ''permission-denied'')"
    by (simp add: deniedStore_def)
  then have h: "deniedStore (Query ''students'' ''facultyId'' (uid scenarioFaculty))
       = Inl (FirestoreError ''permission-denied'')
         \<or> (\<exists>students. deniedStore (Query ''students'' ''facultyId'' (uid scenarioFaculty)) = Inr students)
            \<and> deniedStore (Query ''experiments'' ''facultyId'' (uid scenarioFaculty))
               = Inl (FirestoreError ''permission-denied'')"
    by simp
  have i: "issued (snd (fetchStats deniedStore (Some scenarioFaculty) initialWorld))
      = [Query ''students'' ''facultyId'' ''f1'']"
    by (simp add: fetchStats_def try_block_def getDocs_def console_error_def deniedStore_def
        scenarioFaculty_def initialWorld_def)
  have w0: "currentStats initialWorld = initialStats" "console initialWorld = []"
    by (simp_all add: initialWorld_def)
  show ?thesis
    using fetch_failure_keeps_stats [OF scenario_store(3) h, of initialWorld] d i w0
      second_query_fails
    by (cases "fetchStats deniedStore (Some scenarioFaculty) initialWorld")
       (simp add: scenario_store)
qed

text \<open>
  C9. Without a profile the routine returns at once and leaves everything as it was: no
  query is sent, nothing is stored in the state slot and nothing is logged; and the
  component renders nothing (\<open>null\<close>).
\<close>

theorem no_profile_skips_aggregation:
  "fetchStats db None w = (Resolved, w) \<and> Dashboard None s = None"
  by (simp add: fetchStats_def Dashboard_def)

subsection \<open>Binary64 arithmetic\<close>

lemma bitlen_powi:
  assumes "0 < n"
  shows "(2::rat) powi (bitlen n - 1) \<le> rat_of_int n" and "rat_of_int n < 2 powi bitlen n"
proof -
  from assms have b: "1 \<le> bitlen n"
    by (simp add: bitlen_alt_def)
  from bitlen_bounds [OF assms] have l: "2 ^ nat (bitlen n - 1) \<le> n" and u: "n < 2 ^ nat (bitlen n)"
    by simp_all
  from l have "rat_of_int (2 ^ nat (bitlen n - 1)) \<le> rat_of_int n"
    by (simp only: of_int_le_iff)
  with b show "(2::rat) powi (bitlen n - 1) \<le> rat_of_int n"
    by (simp add: power_int_nonneg_exp)
  from u have "rat_of_int n < rat_of_int (2 ^ nat (bitlen n))"
    by (simp only: of_int_less_iff)
  with b show "rat_of_int n < 2 powi bitlen n"
    by (simp add: power_int_nonneg_exp)
qed

lemma exponent_bounds:
  assumes "x \<noteq> 0"
  shows "2 powi exponent x \<le> \<bar>x\<bar>" and "\<bar>x\<bar> < 2 powi (exponent x + 1)"
proof -
  obtain n d where q: "quotient_of \<bar>x\<bar> = (n, d)"
    by (cases "quotient_of \<bar>x\<bar>")
  then have d: "0 < d" and x: "\<bar>x\<bar> = rat_of_int n / rat_of_int d"
    by (simp_all add: quotient_of_denom_pos quotient_of_div)
  from assms have "0 < \<bar>x\<bar>" by simp
  with x d have n: "0 < n"
    by (simp add: zero_less_divide_iff)
  define k where "k = bitlen n - bitlen d"
  have e: "exponent x = (if 2 powi k \<le> \<bar>x\<bar> then k else k - 1)"
    by (simp add: exponent_def q k_def Let_def)
  have "\<bar>x\<bar> < 2 powi bitlen n / 2 powi (bitlen d - 1)"
    unfolding x using bitlen_powi [OF n] bitlen_powi [OF d] n d
    by (intro frac_less) simp_all
  also have "\<dots> = 2 powi (k + 1)"
    by (simp add: k_def flip: power_int_diff) (simp add: algebra_simps)
  finally have upper: "\<bar>x\<bar> < 2 powi (k + 1)" .
  have "2 powi (bitlen n - 1) / 2 powi bitlen d < \<bar>x\<bar>"
    unfolding x using bitlen_powi [OF n] bitlen_powi [OF d] n d
    by (intro frac_less2) simp_all
  moreover have "2 powi (bitlen n - 1) / 2 powi bitlen d = (2::rat) powi (k - 1)"
    by (simp add: k_def flip: power_int_diff) (simp add: algebra_simps)
  ultimately have lower: "2 powi (k - 1) \<le> \<bar>x\<bar>" by simp
  show "2 powi exponent x \<le> \<bar>x\<bar>"
    using lower by (simp add: e)
  show "\<bar>x\<bar> < 2 powi (exponent x + 1)"
    using upper by (auto simp: e not_le)
qed

lemma exponent_unique:
  assumes "2 powi e \<le> \<bar>x\<bar>" and "\<bar>x\<bar> < 2 powi (e + 1)"
  shows "exponent x = e"
proof -
  have nz: "x \<noteq> 0"
  proof
    assume "x = 0"
    with assms(1) have "(2::rat) powi e \<le> 0" by simp
    moreover have "0 < (2::rat) powi e" by simp
    ultimately show False by linarith
  qed
  have "2 powi exponent x < (2::rat) powi (e + 1)"
    using exponent_bounds(1) [OF nz] assms(2) by simp
  then have 1: "exponent x < e + 1"
    by (metis linorder_not_less one_le_numeral power_int_increasing)
  have "2 powi e < (2::rat) powi (exponent x + 1)"
    using exponent_bounds(2) [OF nz] assms(1) by simp
  then have 2: "e < exponent x + 1"
    by (metis linorder_not_less one_le_numeral power_int_increasing)
  from 1 2 show ?thesis by simp
qed

lemma round_half_even_error: "\<bar>rat_of_int (round_half_even x) - x\<bar> \<le> 1 / 2"
proof -
  have "rat_of_int \<lfloor>x\<rfloor> \<le> x" "x < rat_of_int \<lfloor>x\<rfloor> + 1"
    by linarith+
  then show ?thesis
    by (auto simp: round_half_even_def Let_def abs_le_iff)
qed

lemma round_half_even_unique:
  assumes "rat_of_int m - 1 / 2 < x" and "x < rat_of_int m + 1 / 2"
  shows "round_half_even x = m"
proof -
  have f: "rat_of_int \<lfloor>x\<rfloor> \<le> x" "x < rat_of_int \<lfloor>x\<rfloor> + 1"
    by linarith+
  have "\<lfloor>x\<rfloor> = m \<or> \<lfloor>x\<rfloor> = m - 1"
    using assms by linarith
  then show ?thesis
    using assms f by (auto simp: round_half_even_def Let_def)
qed

lemma binary64_normal:
  assumes "2 powi e \<le> x" and "x < 2 powi (e + 1)" and "- 1022 \<le> e" and "e \<le> 1022"
  defines "r \<equiv> rat_of_int (round_half_even (x / 2 powi (e - 52))) * 2 powi (e - 52)"
  shows "binary64 x = Finite r" and "\<bar>r - x\<bar> \<le> x / 2 ^ 53"
proof -
  have p: "0 < (2::rat) powi e" by simp
  with assms(1) have x: "0 < x" by linarith
  then have ax: "\<bar>x\<bar> = x" by simp
  have ex: "exponent x = e"
    using assms(1,2) by (intro exponent_unique) (simp_all add: ax)
  define u :: rat where "u = 2 powi (e - 52)"
  have u: "0 < u" by (simp add: u_def)
  have u2: "u = 2 powi e / 2 ^ 52"
    by (simp add: u_def power_int_diff)
  define m where "m = round_half_even (x / u)"
  have r: "r = rat_of_int m * u"
    by (simp add: r_def m_def u_def)
  have "\<bar>rat_of_int m - x / u\<bar> \<le> 1 / 2"
    unfolding m_def by (rule round_half_even_error)
  then have "\<bar>rat_of_int m - x / u\<bar> * u \<le> 1 / 2 * u"
    using u by (intro mult_right_mono) simp_all
  moreover have "\<bar>rat_of_int m - x / u\<bar> * u = \<bar>r - x\<bar>"
  proof -
    have "\<bar>rat_of_int m - x / u\<bar> * u = \<bar>(rat_of_int m - x / u) * u\<bar>"
      using u by (simp add: abs_mult)
    also have "(rat_of_int m - x / u) * u = r - x"
      using u by (simp add: r field_simps)
    finally show ?thesis .
  qed
  ultimately have d: "\<bar>r - x\<bar> \<le> u / 2" by simp
  have "u / 2 = 2 powi e / 2 ^ 53" by (simp add: u2)
  also have "\<dots> \<le> x / 2 ^ 53"
    using assms(1) by (intro divide_right_mono) simp_all
  finally have h: "u / 2 \<le> x / 2 ^ 53" .
  with d show e: "\<bar>r - x\<bar> \<le> x / 2 ^ 53" by linarith
  have "x / 2 ^ 53 < x" using x by (simp add: field_simps)
  with e have lo: "0 < r" and "r < 2 * x" by linarith+
  moreover have "2 * x < 2 * 2 powi (e + 1)" using assms(2) by simp
  moreover have "2 * (2::rat) powi (e + 1) = 2 powi (e + 2)"
    by (simp add: power_int_add)
  moreover have "(2::rat) powi (e + 2) \<le> 2 powi 1024"
    using assms(4) by (intro power_int_increasing) simp_all
  ultimately have hi: "r < 2 powi 1024" by linarith
  have "- ((2::rat) powi 1024) < 0" by simp
  with lo have lo': "\<not> r \<le> - (2 powi 1024)" by linarith
  have "max (exponent x) (- 1022) = e"
    using assms(3) by (simp add: ex)
  then have "binary64 x =
      (if 2 powi 1024 \<le> r then PosInfinity else if r \<le> - (2 powi 1024) then NegInfinity else Finite r)"
    using x unfolding binary64_def r_def by (simp only: Let_def) simp
  with hi lo' show "binary64 x = Finite r"
    by (simp only: not_le [symmetric] if_False)
qed

lemma powi_less_imp_less: "(2::rat) powi a < 2 powi b \<Longrightarrow> a < b"
  by (metis linorder_not_less one_le_numeral power_int_increasing)

lemma binary64_range:
  assumes "2 powi lo \<le> x" and "x < 2 powi hi" and "- 1022 \<le> lo" and "hi \<le> 1023"
  shows "\<exists>q. binary64 x = Finite q \<and> \<bar>q - x\<bar> \<le> x / 2 ^ 53"
proof -
  have "0 < (2::rat) powi lo" by simp
  with assms(1) have x: "0 < x" by linarith
  then have nz: "x \<noteq> 0" and ax: "\<bar>x\<bar> = x" by simp_all
  define e where "e = exponent x"
  from exponent_bounds [OF nz] have b: "2 powi e \<le> x" "x < 2 powi (e + 1)"
    by (simp_all add: ax e_def)
  from assms(1) b(2) have "(2::rat) powi lo < 2 powi (e + 1)" by linarith
  then have "lo < e + 1" by (rule powi_less_imp_less)
  with assms(3) have l: "- 1022 \<le> e" by simp
  from assms(2) b(1) have "(2::rat) powi e < 2 powi hi" by linarith
  then have "e < hi" by (rule powi_less_imp_less)
  with assms(4) have h: "e \<le> 1022" by simp
  from binary64_normal [OF b l h] show ?thesis by blast
qed

lemma quotient_times_100:
  assumes "0 \<le> c" and "c < 2 ^ 32" and "0 < t" and "t < 2 ^ 32"
  shows "\<exists>q. js_times (js_divide c t) (Finite 100) = Finite q
             \<and> \<bar>q - 100 * rat_of_int c / rat_of_int t\<bar> \<le> 1 / 2 ^ 12"
proof (cases "c = 0")
  case True
  with assms(3) show ?thesis
    by (simp add: js_divide_def binary64_def)
next
  case False
  with assms(1) have c: "1 \<le> c" by simp
  define x where "x = rat_of_int c / rat_of_int t"
  have t: "0 < rat_of_int t" "rat_of_int t < 2 ^ 32" "1 \<le> rat_of_int t"
    using assms(3,4) by (simp_all add: of_int_less_numeral_power_cancel_iff)
  have c': "1 \<le> rat_of_int c" "rat_of_int c < 2 ^ 32"
    using c assms(2) by (simp_all add: of_int_less_numeral_power_cancel_iff)
  have "1 / 2 ^ 32 \<le> x"
    unfolding x_def using t c' by (intro frac_le) simp_all
  then have x1: "2 powi (- 32) \<le> x" by (simp add: power_int_minus_divide)
  have "x < 2 ^ 32 / 1"
    unfolding x_def using t c' by (intro frac_less) simp_all
  then have x2: "x < 2 powi 32" by simp
  from binary64_range [OF x1 x2] obtain q1
    where q1: "binary64 x = Finite q1" "\<bar>q1 - x\<bar> \<le> x / 2 ^ 53" by auto
  have xpos: "0 < x" using x1 zero_less_power_int [of "2::rat" "- 32"] by linarith
  have "x / 2 ^ 53 \<le> x / 2" using xpos by (simp add: field_simps)
  with q1(2) have q1b: "x / 2 \<le> q1" "q1 \<le> 2 * x" by linarith+
  define y where "y = q1 * 100"
  have "2 powi (- 33) = (2::rat) powi (- 32) / 2" by (simp add: power_int_minus_divide)
  with x1 q1b(1) have "2 powi (- 33) \<le> q1" by linarith
  then have y1: "2 powi (- 33) \<le> y"
    unfolding y_def using zero_less_power_int [of "2::rat" "- 33"] by linarith
  have "y \<le> 200 * x" using q1b(2) by (simp add: y_def)
  also have "\<dots> < 200 * 2 ^ 32" using x2 by simp
  also have "\<dots> < (2::rat) ^ 40" by simp
  finally have y2: "y < 2 powi 40" by simp
  from binary64_range [OF y1 y2] obtain q2
    where q2: "binary64 y = Finite q2" "\<bar>q2 - y\<bar> \<le> y / 2 ^ 53" by auto
  have "\<bar>q2 - 100 * x\<bar> \<le> \<bar>q2 - y\<bar> + 100 * \<bar>q1 - x\<bar>"
    unfolding y_def by (simp only: abs_if split: if_splits) auto
  also have "\<dots> \<le> y / 2 ^ 53 + 100 * (x / 2 ^ 53)"
    using q1(2) q2(2) by (intro add_mono mult_left_mono) simp_all
  also have "\<dots> \<le> 200 * x / 2 ^ 53 + 100 * (x / 2 ^ 53)"
    using \<open>y \<le> 200 * x\<close> by (simp add: divide_right_mono)
  also have "\<dots> = 300 * x / 2 ^ 53" by simp
  also have "\<dots> \<le> 300 * 2 ^ 32 / 2 ^ 53"
    using x2 by (intro divide_right_mono) simp_all
  also have "\<dots> \<le> 1 / 2 ^ 12" by simp
  finally have "\<bar>q2 - 100 * x\<bar> \<le> 1 / 2 ^ 12" .
  moreover have "js_times (js_divide c t) (Finite 100) = Finite q2"
    using assms(3) q1(1) q2(1) by (simp add: js_divide_def x_def y_def)
  ultimately show ?thesis
    by (simp add: x_def)
qed

lemma binary64_eval:
  assumes "2 powi e \<le> x" and "x < 2 powi (e + 1)" and "- 1022 \<le> e" and "e \<le> 1022"
    and "round_half_even (x / 2 powi (e - 52)) = m"
  shows "binary64 x = Finite (rat_of_int m * 2 powi (e - 52))"
  using binary64_normal(1) [OF assms(1-4)] assms(5) by simp

lemma successRate_23_40:
  "successRate (s\<lparr>completedExperiments := 23, totalExperiments := 40\<rparr>) = Finite 57"
proof -
  have r1: "round_half_even (23 / 40 / 2 powi (- 1 - 52)) = 5179139571476070"
    by code_simp
  have d: "binary64 (23 / 40) = Finite (5179139571476070 / 2 ^ 53)"
    using binary64_eval [where e = "- 1" and x = "23 / 40", OF _ _ _ _ r1]
    by (simp add: power_int_minus_divide)
  have r2: "round_half_even (5179139571476070 / 2 ^ 53 * 100 / 2 powi (5 - 52)) = 8092405580431359"
    by code_simp
  have p: "binary64 (5179139571476070 / 2 ^ 53 * 100) = Finite (8092405580431359 / 2 ^ 47)"
    using binary64_eval [where e = "5" and x = "5179139571476070 / 2 ^ 53 * 100", OF _ _ _ _ r2]
    by (simp add: power_int_minus_divide)
  have f: "\<lfloor>8092405580431359 / 2 ^ 47 + 1 / (2::rat)\<rfloor> = 57"
    by (rule floor_unique) simp_all
  have q: "js_divide 23 40 = Finite (5179139571476070 / 2 ^ 53)"
    by (simp add: js_divide_def d)
  have t: "js_times (Finite (5179139571476070 / 2 ^ 53)) (Finite 100) = Finite (8092405580431359 / 2 ^ 47)"
    by (simp only: js_times.simps p)
  have m: "Math_round (Finite (8092405580431359 / 2 ^ 47)) = Finite 57"
    by (simp only: Math_round_def js_number.case f) simp
  have "successRate (s\<lparr>completedExperiments := 23, totalExperiments := 40\<rparr>)
      = Math_round (js_times (js_divide 23 40) (Finite 100))"
    by (simp add: successRate_def)
  then show ?thesis
    by (simp only: q t m)
qed

lemma successRate_1_8:
  "successRate (s\<lparr>completedExperiments := 1, totalExperiments := 8\<rparr>) = Finite 13"
proof -
  have r1: "round_half_even (1 / 8 / 2 powi (- 3 - 52)) = 4503599627370496"
    by code_simp
  have d: "binary64 (1 / 8) = Finite (4503599627370496 / 2 ^ 55)"
    using binary64_eval [where e = "- 3" and x = "1 / 8", OF _ _ _ _ r1]
    by (simp add: power_int_minus_divide)
  have r2: "round_half_even (4503599627370496 / 2 ^ 55 * 100 / 2 powi (3 - 52)) = 7036874417766400"
    by code_simp
  have p: "binary64 (4503599627370496 / 2 ^ 55 * 100) = Finite (7036874417766400 / 2 ^ 49)"
    using binary64_eval [where e = "3" and x = "4503599627370496 / 2 ^ 55 * 100", OF _ _ _ _ r2]
    by (simp add: power_int_minus_divide)
  have f: "\<lfloor>7036874417766400 / 2 ^ 49 + 1 / (2::rat)\<rfloor> = 13"
    by (rule floor_unique) simp_all
  have q: "js_divide 1 8 = Finite (4503599627370496 / 2 ^ 55)"
    by (simp add: js_divide_def d)
  have t: "js_times (Finite (4503599627370496 / 2 ^ 55)) (Finite 100) = Finite (7036874417766400 / 2 ^ 49)"
    by (simp only: js_times.simps p)
  have m: "Math_round (Finite (7036874417766400 / 2 ^ 49)) = Finite 13"
    by (simp only: Math_round_def js_number.case f) simp
  have "successRate (s\<lparr>completedExperiments := 1, totalExperiments := 8\<rparr>)
      = Math_round (js_times (js_divide 1 8) (Finite 100))"
    by (simp add: successRate_def)
  then show ?thesis
    by (simp only: q t m)
qed

lemma successRate_2_3:
  "successRate (s\<lparr>completedExperiments := 2, totalExperiments := 3\<rparr>) = Finite 67"
proof -
  have r1: "round_half_even (2 / 3 / 2 powi (- 1 - 52)) = 6004799503160661"
    by code_simp
  have d: "binary64 (2 / 3) = Finite (6004799503160661 / 2 ^ 53)"
    using binary64_eval [where e = "- 1" and x = "2 / 3", OF _ _ _ _ r1]
    by (simp add: power_int_minus_divide)
  have r2: "round_half_even (6004799503160661 / 2 ^ 53 * 100 / 2 powi (6 - 52)) = 4691249611844266"
    by code_simp
  have p: "binary64 (6004799503160661 / 2 ^ 53 * 100) = Finite (4691249611844266 / 2 ^ 46)"
    using binary64_eval [where e = "6" and x = "6004799503160661 / 2 ^ 53 * 100", OF _ _ _ _ r2]
    by (simp add: power_int_minus_divide)
  have f: "\<lfloor>4691249611844266 / 2 ^ 46 + 1 / (2::rat)\<rfloor> = 67"
    by (rule floor_unique) simp_all
  have q: "js_divide 2 3 = Finite (6004799503160661 / 2 ^ 53)"
    by (simp add: js_divide_def d)
  have t: "js_times (Finite (6004799503160661 / 2 ^ 53)) (Finite 100) = Finite (4691249611844266 / 2 ^ 46)"
    by (simp only: js_times.simps p)
  have m: "Math_round (Finite (4691249611844266 / 2 ^ 46)) = Finite 67"
    by (simp only: Math_round_def js_number.case f) simp
  have "successRate (s\<lparr>completedExperiments := 2, totalExperiments := 3\<rparr>)
      = Math_round (js_times (js_divide 2 3) (Finite 100))"
    by (simp add: successRate_def)
  then show ?thesis
    by (simp only: q t m)
qed

lemma successRate_117_200:
  "successRate (s\<lparr>completedExperiments := 117, totalExperiments := 200\<rparr>) = Finite 59"
proof -
  have r1: "round_half_even (117 / 200 / 2 powi (- 1 - 52)) = 5269211564023480"
    by code_simp
  have d: "binary64 (117 / 200) = Finite (5269211564023480 / 2 ^ 53)"
    using binary64_eval [where e = "- 1" and x = "117 / 200", OF _ _ _ _ r1]
    by (simp add: power_int_minus_divide)
  have r2: "round_half_even (5269211564023480 / 2 ^ 53 * 100 / 2 powi (5 - 52)) = 8233143068786688"
    by code_simp
  have p: "binary64 (5269211564023480 / 2 ^ 53 * 100) = Finite (8233143068786688 / 2 ^ 47)"
    using binary64_eval [where e = "5" and x = "5269211564023480 / 2 ^ 53 * 100", OF _ _ _ _ r2]
    by (simp add: power_int_minus_divide)
  have f: "\<lfloor>8233143068786688 / 2 ^ 47 + 1 / (2::rat)\<rfloor> = 59"
    by (rule floor_unique) simp_all
  have q: "js_divide 117 200 = Finite (5269211564023480 / 2 ^ 53)"
    by (simp add: js_divide_def d)
  have t: "js_times (Finite (5269211564023480 / 2 ^ 53)) (Finite 100) = Finite (8233143068786688 / 2 ^ 47)"
    by (simp only: js_times.simps p)
  have m: "Math_round (Finite (8233143068786688 / 2 ^ 47)) = Finite 59"
    by (simp only: Math_round_def js_number.case f) simp
  have "successRate (s\<lparr>completedExperiments := 117, totalExperiments := 200\<rparr>)
      = Math_round (js_times (js_divide 117 200) (Finite 100))"
    by (simp add: successRate_def)
  then show ?thesis
    by (simp only: q t m)
qed

lemma binary64_ties_to_even:
  "binary64 (1 + 1 / 2 ^ 53) = Finite 1"
  "binary64 (1 + 3 / 2 ^ 53) = Finite (1 + 1 / 2 ^ 51)"
proof -
  have r1: "round_half_even ((1 + 1 / 2 ^ 53) / 2 powi (0 - 52)) = 4503599627370496"
    by code_simp
  show "binary64 (1 + 1 / 2 ^ 53) = Finite 1"
    using binary64_eval [where e = 0 and x = "1 + 1 / 2 ^ 53", OF _ _ _ _ r1]
    by (simp add: power_int_minus_divide)
  have r2: "round_half_even ((1 + 3 / 2 ^ 53) / 2 powi (0 - 52)) = 4503599627370498"
    by code_simp
  show "binary64 (1 + 3 / 2 ^ 53) = Finite (1 + 1 / 2 ^ 51)"
    using binary64_eval [where e = 0 and x = "1 + 3 / 2 ^ 53", OF _ _ _ _ r2]
    by (simp add: power_int_minus_divide)
qed

lemma binary64_not_NaN: "binary64 x \<noteq> NaN"
  by (simp add: binary64_def Let_def)

lemma successRate_not_NaN:
  assumes "totalExperiments s \<noteq> 0"
  shows "successRate s \<noteq> NaN"
proof -
  define x where "x = rat_of_int (completedExperiments s) / rat_of_int (totalExperiments s)"
  have d: "js_divide (completedExperiments s) (totalExperiments s) = binary64 x"
    using assms by (simp add: js_divide_def x_def)
  have "js_times (binary64 x) (Finite 100) \<noteq> NaN"
    using binary64_not_NaN [of x] binary64_not_NaN [of "y * 100" for y]
    by (cases "binary64 x") (simp_all add: js_infinity_def)
  then show ?thesis
    unfolding successRate_def d Math_round_def
    by (cases "js_times (binary64 x) (Finite 100)") simp_all
qed

lemma successRate_zero_divisor:
  assumes "totalExperiments s = 0"
  shows "successRate s =
     (if completedExperiments s = 0 then NaN
      else if 0 < completedExperiments s then PosInfinity else NegInfinity)"
  using assms by (simp add: successRate_def js_divide_def Math_round_def js_infinity_def)

lemma successRate_nearest:
  assumes "0 < totalExperiments s" and "totalExperiments s < 2 ^ 32"
    and "0 \<le> completedExperiments s" and "completedExperiments s < 2 ^ 32"
  shows "\<exists>n. successRate s = Finite (rat_of_int n)
     \<and> \<bar>rat_of_int n - 100 * rat_of_int (completedExperiments s) / rat_of_int (totalExperiments s)\<bar>
         \<le> 1 / 2 + 1 / 2 ^ 12"
proof -
  from quotient_times_100 [OF assms(3,4,1,2)] obtain q
    where q: "js_times (js_divide (completedExperiments s) (totalExperiments s)) (Finite 100) = Finite q"
      "\<bar>q - 100 * rat_of_int (completedExperiments s) / rat_of_int (totalExperiments s)\<bar> \<le> 1 / 2 ^ 12"
    by blast
  have "rat_of_int \<lfloor>q + 1 / 2\<rfloor> \<le> q + 1 / 2" "q + 1 / 2 < rat_of_int \<lfloor>q + 1 / 2\<rfloor> + 1"
    by linarith+
  then have "\<bar>rat_of_int \<lfloor>q + 1 / 2\<rfloor> - q\<bar> \<le> 1 / 2"
    by linarith
  with q(2) have "\<bar>rat_of_int \<lfloor>q + 1 / 2\<rfloor>
      - 100 * rat_of_int (completedExperiments s) / rat_of_int (totalExperiments s)\<bar> \<le> 1 / 2 + 1 / 2 ^ 12"
    by linarith
  moreover have "successRate s = Finite (rat_of_int \<lfloor>q + 1 / 2\<rfloor>)"
    by (simp add: successRate_def q(1) Math_round_def)
  ultimately show ?thesis by blast
qed

lemma successRate_of_five:
  assumes "totalExperiments s = 5" and "0 \<le> completedExperiments s" and "completedExperiments s < 2 ^ 32"
  shows "successRate s = Finite (rat_of_int (20 * completedExperiments s))"
proof -
  have "0 < totalExperiments s" "totalExperiments s < 2 ^ 32"
    by (simp_all add: assms(1))
  from quotient_times_100 [OF assms(2,3) this] obtain q
    where q: "js_times (js_divide (completedExperiments s) (totalExperiments s)) (Finite 100) = Finite q"
      "\<bar>q - 100 * rat_of_int (completedExperiments s) / rat_of_int (totalExperiments s)\<bar> \<le> 1 / 2 ^ 12"
    by blast
  have "100 * rat_of_int (completedExperiments s) / rat_of_int (totalExperiments s)
      = rat_of_int (20 * completedExperiments s)"
    by (simp add: assms(1))
  with q(2) have "\<bar>q - rat_of_int (20 * completedExperiments s)\<bar> \<le> 1 / 2 ^ 12"
    by simp
  moreover have "(1::rat) / 2 ^ 12 < 1 / 2" by simp
  ultimately have "rat_of_int (20 * completedExperiments s) \<le> q + 1 / 2"
    and "q + 1 / 2 < rat_of_int (20 * completedExperiments s) + 1"
    by linarith+
  then have "\<lfloor>q + 1 / 2\<rfloor> = 20 * completedExperiments s"
    by (rule floor_unique)
  then show ?thesis
    by (simp add: successRate_def q(1) Math_round_def)
qed

text \<open>
  C10. For a student the Success Rate card shows
  \<open>Math.round((completedExperiments / totalExperiments) * 100)\<close> of the current state,
  whatever that state is: there is no guard, and with \<open>totalExperiments\<close> = 0 the card is
  \<open>NaN\<close> (for 0/0) or an infinity. In the initial state both counts are 0, so the quotient
  is 0/0 and the card is \<open>NaN\<close>. After a student aggregation \<open>totalExperiments\<close> is 5,
  the card is never \<open>NaN\<close>, and it is twenty times the completions (for fewer than
  \<open>2^32\<close> completions, the bound on the length of an array). For counts below \<open>2^32\<close> and
  a divisor that is not zero the card is an integer within \<open>1/2 + 2^(-12)\<close> of the exact
  percentage: the nearest integer, up to the rounding of the quotient and of the product
  to binary64. That rounding shows at 23 of 40, where the exact percentage is 57.5 and
  the card is 57; 1 of 8 gives 12.5 and the card 13; 2 of 3 gives the card 67; and at
  117 of 200 the product lies halfway between 58.49999999999999 and 58.5, is rounded to
  58.5, and the card is 59.
\<close>

theorem success_rate_division:
  assumes "role p \<noteq> ''faculty''"
  shows "map_option (\<lambda>v. map cardValue (filter (\<lambda>c. title c = ''Success Rate'') (statCards v)))
           (Dashboard (Some p) s) = Some [successRate s]
     \<and> successRate s =
         Math_round (js_times (js_divide (completedExperiments s) (totalExperiments s)) (Finite 100))
     \<and> (totalExperiments s = 0 \<longrightarrow>
          successRate s =
            (if completedExperiments s = 0 then NaN
             else if 0 < completedExperiments s then PosInfinity else NegInfinity))
     \<and> (0 < totalExperiments s \<and> totalExperiments s < 2 ^ 32
          \<and> 0 \<le> completedExperiments s \<and> completedExperiments s < 2 ^ 32 \<longrightarrow>
          (\<exists>n. successRate s = Finite (rat_of_int n)
             \<and> \<bar>rat_of_int n
                 - 100 * rat_of_int (completedExperiments s) / rat_of_int (totalExperiments s)\<bar>
                \<le> 1 / 2 + 1 / 2 ^ 12))
     \<and> successRate (s\<lparr>completedExperiments := 23, totalExperiments := 40\<rparr>) = Finite 57
     \<and> successRate (s\<lparr>completedExperiments := 1, totalExperiments := 8\<rparr>) = Finite 13
     \<and> successRate (s\<lparr>completedExperiments := 2, totalExperiments := 3\<rparr>) = Finite 67
     \<and> successRate (s\<lparr>completedExperiments := 117, totalExperiments := 200\<rparr>) = Finite 59
     \<and> completedExperiments initialStats = 0 \<and> totalExperiments initialStats = 0
     \<and> successRate initialStats = NaN
     \<and> totalExperiments (currentStats (snd (fetchStats db (Some p) w))) = 5
     \<and> successRate (currentStats (snd (fetchStats db (Some p) w))) \<noteq> NaN
     \<and> (ownCompleted p < 2 ^ 32 \<longrightarrow>
          successRate (currentStats (snd (fetchStats db (Some p) w)))
            = Finite (rat_of_int (20 * ownCompleted p)))"
proof -
  have 1: "map_option (\<lambda>v. map cardValue (filter (\<lambda>c. title c = ''Success Rate'') (statCards v)))
           (Dashboard (Some p) s) = Some [successRate s]"
    using assms by (simp add: Dashboard_def)
  have 2: "successRate s =
         Math_round (js_times (js_divide (completedExperiments s) (totalExperiments s)) (Finite 100))"
    by (simp add: successRate_def)
  have 3: "totalExperiments s = 0 \<longrightarrow>
          successRate s =
            (if completedExperiments s = 0 then NaN
             else if 0 < completedExperiments s then PosInfinity else NegInfinity)"
    using successRate_zero_divisor [of s] by blast
  have 4: "0 < totalExperiments s \<and> totalExperiments s < 2 ^ 32
          \<and> 0 \<le> completedExperiments s \<and> completedExperiments s < 2 ^ 32 \<longrightarrow>
          (\<exists>n. successRate s = Finite (rat_of_int n)
             \<and> \<bar>rat_of_int n
                 - 100 * rat_of_int (completedExperiments s) / rat_of_int (totalExperiments s)\<bar>
                \<le> 1 / 2 + 1 / 2 ^ 12)"
    using successRate_nearest [of s] by blast
  have 5: "completedExperiments initialStats = 0" "totalExperiments initialStats = 0"
    by (simp_all add: initialStats_def)
  have 6: "successRate initialStats = NaN"
    using successRate_zero_divisor [OF 5(2)] 5(1) by simp
  let ?s = "currentStats (snd (fetchStats db (Some p) w))"
  have st: "?s = studentStats p"
    by (simp add: fetchStats_student [OF assms])
  have 7: "totalExperiments ?s = 5" "completedExperiments ?s = ownCompleted p"
    by (simp_all add: st studentStats_def)
  have 8: "successRate ?s \<noteq> NaN"
    by (rule successRate_not_NaN) (simp add: 7)
  have "0 \<le> ownCompleted p"
    by (simp add: ownCompleted_eq split: option.splits)
  then have 9: "ownCompleted p < 2 ^ 32 \<longrightarrow>
      successRate ?s = Finite (rat_of_int (20 * ownCompleted p))"
    using successRate_of_five [of ?s] 7 by simp
  from 1 2 3 4 successRate_23_40 [of s] successRate_1_8 [of s] successRate_2_3 [of s]
    successRate_117_200 [of s] 5 6 7(1) 8 9
  show ?thesis by (intro conjI)
qed

theorem success_rate_division_witness:
  "role scenarioStudent \<noteq> ''faculty''
   \<and> map_option (\<lambda>v. map (\<lambda>c. (title c, cardValue c)) (statCards v))
        (Dashboard (Some scenarioStudent) initialStats)
       = Some [(''Experiments Completed'', Finite 0), (''Viva Questions Attempted'', Finite 0),
               (''Total Experiments'', Finite 0), (''Success Rate'', NaN)]
   \<and> map_option (\<lambda>v. map (\<lambda>c. (title c, cardValue c)) (statCards v))
        (Dashboard (Some scenarioStudent)
           (initialStats\<lparr>completedExperiments := 23, totalExperiments := 40\<rparr>))
       = Some [(''Experiments Completed'', Finite 23), (''Viva Questions Attempted'', Finite 0),
               (''Total Experiments'', Finite 40), (''Success Rate'', Finite 57)]
   \<and> ownCompleted scenarioStudent = 5
   \<and> successRate (currentStats (snd (fetchStats scenarioStore (Some scenarioStudent) initialWorld)))
       = Finite 100"
proof -
  have r: "role scenarioStudent \<noteq> ''faculty''" by (simp add: scenarioStudent_def)
  have c: "ownCompleted scenarioStudent = 5"
    by (simp add: ownCompleted_eq scenarioStudent_def)
  note t = success_rate_division [OF r, of initialStats scenarioStore initialWorld]
  from t have n: "successRate initialStats = NaN"
    by blast
  from t have f: "successRate (initialStats\<lparr>completedExperiments := 23, totalExperiments := 40\<rparr>) = Finite 57"
    by blast
  from t have "ownCompleted scenarioStudent < 2 ^ 32 \<longrightarrow>
      successRate (currentStats (snd (fetchStats scenarioStore (Some scenarioStudent) initialWorld)))
        = Finite (rat_of_int (20 * ownCompleted scenarioStudent))"
    by blast
  then have a: "successRate (currentStats (snd (fetchStats scenarioStore (Some scenarioStudent) initialWorld)))
       = Finite 100"
    by (simp add: c)
  have d0: "map_option (\<lambda>v. map (\<lambda>c. (title c, cardValue c)) (statCards v))
        (Dashboard (Some scenarioStudent) initialStats)
       = Some [(''Experiments Completed'', js_int 0), (''Viva Questions Attempted'', js_int 0),
               (''Total Experiments'', js_int 0), (''Success Rate'', successRate initialStats)]"
    using r by (simp add: Dashboard_def) (simp add: initialStats_def)
  have d1: "map_option (\<lambda>v. map (\<lambda>c. (title c, cardValue c)) (statCards v))
        (Dashboard (Some scenarioStudent)
           (initialStats\<lparr>completedExperiments := 23, totalExperiments := 40\<rparr>))
       = Some [(''Experiments Completed'', js_int 23), (''Viva Questions Attempted'', js_int 0),
               (''Total Experiments'', js_int 40),
               (''Success Rate'',
                successRate (initialStats\<lparr>completedExperiments := 23, totalExperiments := 40\<rparr>))]"
    using r by (simp add: Dashboard_def) (simp add: initialStats_def)
  show ?thesis
    unfolding d0 d1 n f a c using r by (simp add: js_int_def)
qed

end
